theory Spec2Isabelle
  imports Main "HOL-Library.Char_ord" "HOL-Library.List_Lexorder" "HOL-Library.Multiset"
begin

section \<open>Strings\<close>

text \<open>
  JavaScript strings are modelled as \<open>string\<close> (a list of 8-bit code units), compared
  with \<open><\<close> and \<open>\<le>\<close> code unit by code unit as JavaScript does (the lexicographic
  order of \<open>HOL-Library.List_Lexorder\<close> over \<open>HOL-Library.Char_ord\<close>). An ISO timestamp,
  as \<open>new Date().toISOString()\<close> returns it, is such a string. The empty string is the
  only falsy string.
\<close>

definition is_space :: "char \<Rightarrow> bool" where
  \<comment> \<open>the white space and line terminators of \<open>String.prototype.trim\<close> below code unit 256\<close>
  "is_space c = (c \<in> set [CHR 0x09, CHR 0x0A, CHR 0x0B, CHR 0x0C, CHR 0x0D, CHR 0x20, CHR 0xA0])"

definition trim :: "string \<Rightarrow> string" where
  "trim s = rev (dropWhile is_space (rev (dropWhile is_space s)))"

definition lower_char :: "char \<Rightarrow> char" where
  "lower_char c =
     (let n = (of_char c :: nat)
      in if (65 \<le> n \<and> n \<le> 90) \<or> (192 \<le> n \<and> n \<le> 222 \<and> n \<noteq> 215)
         then char_of (n + 32) else c)"

definition toLowerCase :: "string \<Rightarrow> string" where
  "toLowerCase s = map lower_char s"

definition startsWith :: "string \<Rightarrow> string \<Rightarrow> bool" where
  "startsWith s p = (take (length p) s = p)"


fun includes_str :: "string \<Rightarrow> string \<Rightarrow> bool" where
  "includes_str [] needle = (needle = [])"
| "includes_str (c # cs) needle = (startsWith (c # cs) needle \<or> includes_str cs needle)"

section \<open>Data model (types.ts)\<close>

datatype priority = low | normal | high

record todo =
  id' :: string
  title :: string
  notes' :: "string option"
  dueDate :: "string option"
  priority :: priority
  tags :: "string list"
  completed :: bool
  createdAt :: string
  updatedAt :: string

record createTodoDto =
  dto_title :: string
  dto_notes :: "string option"
  dto_dueDate :: "string option"
  dto_priority :: "priority option"
  dto_tags :: "string list option"

record updateTodoDto =
  upd_title :: "string option"
  upd_notes :: "string option"
  upd_dueDate :: "string option"
  upd_priority :: "priority option"
  upd_tags :: "string list option"
  upd_completed :: "bool option"

record todoFilter =
  f_completed :: "bool option"
  f_tag :: "string option"
  f_dueBefore :: "string option"
  f_dueAfter :: "string option"
  f_priority :: "priority option"
  f_search :: "string option"

text \<open>
  Errors are values. \<open>TodoNotFoundError\<close> carries the id, \<open>DatabaseError\<close> its message and
  its cause, and \<open>Error\<close> is any other JavaScript error, by message or name (a plain
  \<open>Error\<close>, a rejection of the storage engine).
\<close>

datatype error =
    TodoNotFoundError string
  | DatabaseError string error
  | Error string

section \<open>The table \<open>db.todos\<close> (dexie.ts)\<close>

text \<open>
  The table is the list of its rows; the primary key of a row is its \<open>id'\<close> (the field
  \<open>id\<close> of the source). The operations below are the ones of the Dexie table the
  repository calls. A request the storage engine rejects (quota, a closed database) is
  an input of the model: each operation takes a flag saying whether the engine rejects
  it, and the repository functions take the flags of their requests as a function of
  the request's position in the call.
\<close>

type_synonym table = "todo list"

definition StorageFailure :: error where
  "StorageFailure = Error ''StorageFailure''"

definition has_key :: "string \<Rightarrow> table \<Rightarrow> bool" where
  "has_key k rows = (k \<in> set (map id' rows))"

definition hook_creating :: "string \<Rightarrow> todo \<Rightarrow> todo" where
  \<comment> \<open>\<open>this.todos.hook('creating', ...)\<close>: the hook reads the clock (\<open>hnow\<close>) and writes both
      timestamps of the object about to be stored\<close>
  "hook_creating hnow obj = obj\<lparr>createdAt := hnow, updatedAt := hnow\<rparr>"

record partialTodo =
  p_title :: "string option"
  p_notes :: "string option"
  p_dueDate :: "string option"
  p_priority :: "priority option"
  p_tags :: "string list option"
  p_completed :: "bool option"
  p_updatedAt :: "string option"

definition hook_updating :: "partialTodo option" where
  \<comment> \<open>what \<open>this.todos.hook('updating', ...)\<close> returns: the hook reads the clock, assigns
      it to a field of its \<open>modifications\<close> argument and returns nothing. Dexie applies
      the additional modifications a hook returns, so this hook adds none.\<close>
  "hook_updating = None"

definition apply_changes :: "partialTodo \<Rightarrow> todo \<Rightarrow> todo" where
  \<comment> \<open>the provided fields of a \<open>Partial<Todo>\<close> written into a row\<close>
  "apply_changes ch t =
     t\<lparr>title := (case p_title ch of None \<Rightarrow> title t | Some s \<Rightarrow> s),
       notes' := (case p_notes ch of None \<Rightarrow> notes' t | Some s \<Rightarrow> Some s),
       dueDate := (case p_dueDate ch of None \<Rightarrow> dueDate t | Some d \<Rightarrow> Some d),
       priority := (case p_priority ch of None \<Rightarrow> priority t | Some p \<Rightarrow> p),
       tags := (case p_tags ch of None \<Rightarrow> tags t | Some ts \<Rightarrow> ts),
       completed := (case p_completed ch of None \<Rightarrow> completed t | Some c \<Rightarrow> c),
       updatedAt := (case p_updatedAt ch of None \<Rightarrow> updatedAt t | Some u \<Rightarrow> u)\<rparr>"

definition anything_modified :: "partialTodo \<Rightarrow> todo \<Rightarrow> bool" where
  \<comment> \<open>a provided value is not identical to the stored one; a provided array is another
      object than the stored one, so provided tags always count\<close>
  "anything_modified ch t = (p_tags ch \<noteq> None \<or> apply_changes ch t \<noteq> t)"

definition table_get :: "bool \<Rightarrow> string \<Rightarrow> table \<Rightarrow> error + todo option" where
  "table_get rejected k rows =
     (if rejected then Inl StorageFailure else Inr (find (\<lambda>t. id' t = k) rows))"

definition table_add :: "bool \<Rightarrow> string \<Rightarrow> todo \<Rightarrow> table \<Rightarrow> error + table" where
  \<comment> \<open>\<open>add\<close> fails on a key that is there\<close>
  "table_add rejected hnow obj rows =
     (if rejected then Inl StorageFailure
      else if has_key (id' obj) rows then Inl (Error ''ConstraintError'')
      else Inr (rows @ [hook_creating hnow obj]))"

definition table_put :: "bool \<Rightarrow> string \<Rightarrow> todo \<Rightarrow> table \<Rightarrow> error + table" where
  \<comment> \<open>\<open>put\<close> replaces the row of the key or, when there is none, creates it\<close>
  "table_put rejected hnow obj rows =
     (if rejected then Inl StorageFailure
      else if has_key (id' obj) rows
      then Inr (map (\<lambda>t. if id' t = id' obj
                          then (case hook_updating of
                                  None \<Rightarrow> obj | Some extra \<Rightarrow> apply_changes extra obj)
                          else t) rows)
      else Inr (rows @ [hook_creating hnow obj]))"

definition table_update ::
  "bool \<Rightarrow> bool \<Rightarrow> string \<Rightarrow> partialTodo \<Rightarrow> table \<Rightarrow> error + nat \<times> table" where
  \<comment> \<open>\<open>update(k, changes)\<close>: the number of rows updated and the new table. The number is 0
      when the key is not there. For a key that is there and values that change
      nothing, Dexie's documentation gives 0 and an implementation may give 1: which of
      the two is the argument \<open>counts_unchanged\<close> of the model.\<close>
  "table_update rejected counts_unchanged k ch rows =
     (if rejected then Inl StorageFailure
      else case find (\<lambda>t. id' t = k) rows of
             None \<Rightarrow> Inr (0, rows)
           | Some t0 \<Rightarrow>
               if anything_modified ch t0 \<or> counts_unchanged
               then Inr (1, map (\<lambda>t. if id' t = k
                                      then (case hook_updating of
                                              None \<Rightarrow> apply_changes ch t
                                            | Some extra \<Rightarrow> apply_changes extra (apply_changes ch t))
                                      else t) rows)
               else Inr (0, rows))"

definition table_delete :: "bool \<Rightarrow> string \<Rightarrow> table \<Rightarrow> error + table" where
  \<comment> \<open>deleting a key that is not there is no failure\<close>
  "table_delete rejected k rows =
     (if rejected then Inl StorageFailure else Inr (filter (\<lambda>t. id' t \<noteq> k) rows))"

definition table_clear :: "bool \<Rightarrow> table \<Rightarrow> error + table" where
  "table_clear rejected rows = (if rejected then Inl StorageFailure else Inr [])"

definition table_toArray :: "bool \<Rightarrow> todo list \<Rightarrow> error + todo list" where
  \<comment> \<open>\<open>toArray()\<close> of a table or of a collection: the rows as they are enumerated\<close>
  "table_toArray rejected xs = (if rejected then Inl StorageFailure else Inr xs)"

definition by_primary_key :: "table \<Rightarrow> todo list" where
  \<comment> \<open>the enumeration of the table itself: in primary key order\<close>
  "by_primary_key rows = sort_key id' rows"

definition orderBy_createdAt :: "table \<Rightarrow> todo list" where
  \<comment> \<open>\<open>orderBy('createdAt')\<close>: by the index, rows of equal \<open>createdAt\<close> in primary key
      order (\<open>sort_key\<close> is stable)\<close>
  "orderBy_createdAt rows = sort_key createdAt (sort_key id' rows)"

definition transaction :: "(table \<Rightarrow> error + 'a \<times> table) \<Rightarrow> table \<Rightarrow> (error + 'a) \<times> table" where
  \<comment> \<open>\<open>db.transaction('rw', db.todos, body)\<close>: the writes of a body that throws are rolled
      back and the error is thrown on\<close>
  "transaction body rows =
     (case body rows of Inl e \<Rightarrow> (Inl e, rows) | Inr (v, rows') \<Rightarrow> (Inr v, rows'))"

section \<open>The repository (repo.ts)\<close>

text \<open>
  A repository function takes the table and returns its result, or the error it throws,
  with the table it leaves. Its other inputs from the environment are arguments: \<open>flt\<close>
  (\<open>flt i\<close> says that the storage engine rejects the \<open>i\<close>-th request of the call),
  \<open>cu\<close> (whether \<open>update\<close> counts a row of which no value changes, see \<open>table_update\<close>),
  \<open>uuid\<close> (the value of \<open>crypto.randomUUID()\<close>), \<open>now\<close> (the clock as the function reads
  it) and \<open>hnow\<close> (the clock as the creating hook reads it during the call).
\<close>

definition rethrow_or_wrap :: "string \<Rightarrow> error \<Rightarrow> error" where
  \<comment> \<open>\<open>if (error instanceof TodoNotFoundError) throw error; throw new DatabaseError(msg, error)\<close>\<close>
  "rethrow_or_wrap msg e = (case e of TodoNotFoundError k \<Rightarrow> e | _ \<Rightarrow> DatabaseError msg e)"

definition createTodo ::
  "(nat \<Rightarrow> bool) \<Rightarrow> string \<Rightarrow> string \<Rightarrow> string \<Rightarrow> createTodoDto \<Rightarrow> table \<Rightarrow> (error + string) \<times> table" where
  "createTodo flt uuid now hnow dto rows =
     (let todo = \<lparr>id' = uuid,
                  title = trim (dto_title dto),
                  notes' = map_option trim (dto_notes dto),
                  dueDate = dto_dueDate dto,
                  priority = (case dto_priority dto of None \<Rightarrow> normal | Some p \<Rightarrow> p),
                  tags = (case dto_tags dto of None \<Rightarrow> [] | Some ts \<Rightarrow> ts),
                  completed = False,
                  createdAt = now,
                  updatedAt = now\<rparr>
      in case table_add (flt 0) hnow todo rows of
           Inl e \<Rightarrow> (Inl (DatabaseError ''Failed to create todo'' e), rows)
         | Inr rows' \<Rightarrow> (Inr uuid, rows'))"

definition getTodo :: "(nat \<Rightarrow> bool) \<Rightarrow> string \<Rightarrow> table \<Rightarrow> error + todo" where
  "getTodo flt k rows =
     (case table_get (flt 0) k rows of
        Inl e \<Rightarrow> Inl (DatabaseError (''Failed to get todo '' @ k) e)
      | Inr None \<Rightarrow> Inl (TodoNotFoundError k)
      | Inr (Some t) \<Rightarrow> Inr t)"

definition updateTodo ::
  "(nat \<Rightarrow> bool) \<Rightarrow> bool \<Rightarrow> string \<Rightarrow> string \<Rightarrow> updateTodoDto \<Rightarrow> table
     \<Rightarrow> (error + unit) \<times> table" where
  "updateTodo flt cu now k dto rows =
     (case getTodo flt k rows of
        Inl e \<Rightarrow> (Inl (rethrow_or_wrap (''Failed to update todo '' @ k) e), rows)
      | Inr existingTodo \<Rightarrow>
          (let updates = \<lparr>p_title = map_option trim (upd_title dto),
                          p_notes = map_option trim (upd_notes dto),
                          p_dueDate = upd_dueDate dto,
                          p_priority = upd_priority dto,
                          p_tags = upd_tags dto,
                          p_completed = upd_completed dto,
                          p_updatedAt = Some now\<rparr>
           in case table_update (flt 1) cu k updates rows of
                Inl e \<Rightarrow> (Inl (DatabaseError (''Failed to update todo '' @ k) e), rows)
              | Inr (result, rows') \<Rightarrow>
                  if result = 0 then (Inl (TodoNotFoundError k), rows') else (Inr (), rows')))"

definition completed_dto :: "bool \<Rightarrow> updateTodoDto" where
  \<comment> \<open>the dto \<open>{ completed: b }\<close>\<close>
  "completed_dto b =
     \<lparr>upd_title = None, upd_notes = None, upd_dueDate = None, upd_priority = None,
      upd_tags = None, upd_completed = Some b\<rparr>"

definition toggleTodo ::
  "(nat \<Rightarrow> bool) \<Rightarrow> bool \<Rightarrow> string \<Rightarrow> string \<Rightarrow> table \<Rightarrow> (error + unit) \<times> table" where
  \<comment> \<open>request 0 is the one of its \<open>getTodo\<close>, the next ones are those of \<open>updateTodo\<close>\<close>
  "toggleTodo flt cu now k rows =
     (case getTodo flt k rows of
        Inl e \<Rightarrow> (Inl (rethrow_or_wrap (''Failed to toggle todo '' @ k) e), rows)
      | Inr todo \<Rightarrow>
          (case updateTodo (\<lambda>i. flt (Suc i)) cu now k (completed_dto (\<not> completed todo)) rows of
             (Inl e, rows') \<Rightarrow> (Inl (rethrow_or_wrap (''Failed to toggle todo '' @ k) e), rows')
           | (Inr u, rows') \<Rightarrow> (Inr u, rows')))"

definition complete_updates :: "string \<Rightarrow> partialTodo" where
  \<comment> \<open>\<open>{ completed: true, updatedAt: new Date().toISOString() }\<close>\<close>
  "complete_updates now =
     \<lparr>p_title = None, p_notes = None, p_dueDate = None, p_priority = None, p_tags = None,
      p_completed = Some True, p_updatedAt = Some now\<rparr>"

fun bulkComplete_loop ::
  "(nat \<Rightarrow> bool) \<Rightarrow> bool \<Rightarrow> nat \<Rightarrow> partialTodo \<Rightarrow> string list \<Rightarrow> table \<Rightarrow> error + unit \<times> table" where
  "bulkComplete_loop flt cu i updates [] rows = Inr ((), rows)"
| "bulkComplete_loop flt cu i updates (k # ks) rows =
     (case table_update (flt i) cu k updates rows of
        Inl e \<Rightarrow> Inl e
      | Inr (result, rows') \<Rightarrow> bulkComplete_loop flt cu (Suc i) updates ks rows')"

definition bulkComplete ::
  "(nat \<Rightarrow> bool) \<Rightarrow> bool \<Rightarrow> string \<Rightarrow> string list \<Rightarrow> table \<Rightarrow> (error + unit) \<times> table" where
  "bulkComplete flt cu now ids rows =
     (case transaction (bulkComplete_loop flt cu 0 (complete_updates now) ids) rows of
        (Inl e, rows') \<Rightarrow> (Inl (DatabaseError ''Failed to bulk complete todos'' e), rows')
      | (Inr u, rows') \<Rightarrow> (Inr u, rows'))"

fun bulkDelete_loop ::
  "(nat \<Rightarrow> bool) \<Rightarrow> nat \<Rightarrow> string list \<Rightarrow> table \<Rightarrow> error + unit \<times> table" where
  "bulkDelete_loop flt i [] rows = Inr ((), rows)"
| "bulkDelete_loop flt i (k # ks) rows =
     (case table_delete (flt i) k rows of
        Inl e \<Rightarrow> Inl e
      | Inr rows' \<Rightarrow> bulkDelete_loop flt (Suc i) ks rows')"

definition bulkDelete :: "(nat \<Rightarrow> bool) \<Rightarrow> string list \<Rightarrow> table \<Rightarrow> (error + unit) \<times> table" where
  "bulkDelete flt ids rows =
     (case transaction (bulkDelete_loop flt 0 ids) rows of
        (Inl e, rows') \<Rightarrow> (Inl (DatabaseError ''Failed to bulk delete todos'' e), rows')
      | (Inr u, rows') \<Rightarrow> (Inr u, rows'))"

definition truthy :: "string option \<Rightarrow> bool" where
  \<comment> \<open>an optional string as a condition: \<open>undefined\<close> and the empty string are falsy\<close>
  "truthy x = (case x of None \<Rightarrow> False | Some s \<Rightarrow> s \<noteq> [])"

definition due_le :: "todo \<Rightarrow> string \<Rightarrow> bool" where
  \<comment> \<open>\<open>todo.dueDate && todo.dueDate <= bound\<close>\<close>
  "due_le t bound = (case dueDate t of None \<Rightarrow> False | Some d \<Rightarrow> d \<noteq> [] \<and> d \<le> bound)"

definition due_ge :: "todo \<Rightarrow> string \<Rightarrow> bool" where
  \<comment> \<open>\<open>todo.dueDate && todo.dueDate >= bound\<close>\<close>
  "due_ge t bound = (case dueDate t of None \<Rightarrow> False | Some d \<Rightarrow> d \<noteq> [] \<and> d \<ge> bound)"

definition due_lt :: "todo \<Rightarrow> string \<Rightarrow> bool" where
  \<comment> \<open>\<open>todo.dueDate && todo.dueDate < bound\<close>\<close>
  "due_lt t bound = (case dueDate t of None \<Rightarrow> False | Some d \<Rightarrow> d \<noteq> [] \<and> d < bound)"

definition search_hit :: "string \<Rightarrow> todo \<Rightarrow> bool" where
  "search_hit searchTerm t =
     (includes_str (toLowerCase (title t)) searchTerm
      \<or> (case notes' t of None \<Rightarrow> False | Some n \<Rightarrow> includes_str (toLowerCase n) searchTerm)
      \<or> list_ex (\<lambda>tag. includes_str (toLowerCase tag) searchTerm) (tags t))"

definition listTodos :: "(nat \<Rightarrow> bool) \<Rightarrow> todoFilter \<Rightarrow> table \<Rightarrow> error + todo list" where
  "listTodos flt f rows =
     (let c0 = rev (orderBy_createdAt rows);
          c1 = (case f_completed f of None \<Rightarrow> c0 | Some b \<Rightarrow> filter (\<lambda>t. completed t = b) c0);
          c2 = (if truthy (f_tag f)
                then (case f_tag f of None \<Rightarrow> c1 | Some tag \<Rightarrow> filter (\<lambda>t. tag \<in> set (tags t)) c1)
                else c1);
          c3 = (case f_priority f of None \<Rightarrow> c2 | Some p \<Rightarrow> filter (\<lambda>t. priority t = p) c2);
          c4 = (if truthy (f_dueBefore f)
                then (case f_dueBefore f of None \<Rightarrow> c3 | Some b \<Rightarrow> filter (\<lambda>t. due_le t b) c3)
                else c3);
          c5 = (if truthy (f_dueAfter f)
                then (case f_dueAfter f of None \<Rightarrow> c4 | Some a \<Rightarrow> filter (\<lambda>t. due_ge t a) c4)
                else c4);
          c6 = (if truthy (f_search f)
                then (case f_search f of None \<Rightarrow> c5
                      | Some s \<Rightarrow> filter (search_hit (toLowerCase s)) c5)
                else c5)
      in case table_toArray (flt 0) c6 of
           Inl e \<Rightarrow> Inl (DatabaseError ''Failed to list todos'' e)
         | Inr todos \<Rightarrow> Inr todos)"

record stats =
  total :: nat
  completed' :: nat
  pending :: nat
  overdue :: nat

definition getStats :: "(nat \<Rightarrow> bool) \<Rightarrow> string \<Rightarrow> table \<Rightarrow> error + stats" where
  "getStats flt now rows =
     (case table_toArray (flt 0) (by_primary_key rows) of
        Inl e \<Rightarrow> Inl (DatabaseError ''Failed to get todo statistics'' e)
      | Inr todos \<Rightarrow>
          Inr \<lparr>total = length todos,
               completed' = length (filter (\<lambda>t. completed t) todos),
               pending = length (filter (\<lambda>t. \<not> completed t) todos),
               overdue = length (filter (\<lambda>t. \<not> completed t \<and> due_lt t now) todos)\<rparr>)"

text \<open>
  The argument of \<open>importTodos\<close> is a JSON text; the model takes what \<open>JSON.parse\<close> makes
  of it: a syntax error, a value that is no array, or an array of records. A record of
  the array has the fields of a \<open>Todo\<close>, of which \<open>id\<close> and \<open>title\<close> may be missing
  (\<open>None\<close>) and \<open>completed\<close> may be missing or no boolean (\<open>None\<close>); the other fields are
  taken as typed.
\<close>

record importRecord =
  r_id :: "string option"
  r_title :: "string option"
  r_notes :: "string option"
  r_dueDate :: "string option"
  r_priority :: priority
  r_tags :: "string list"
  r_completed :: "bool option"
  r_createdAt :: string
  r_updatedAt :: string

datatype parsed = SyntaxError | NotArray | Array "importRecord list"

definition invalid_format :: "importRecord \<Rightarrow> bool" where
  \<comment> \<open>\<open>!todo.id || !todo.title || typeof todo.completed !== 'boolean'\<close>\<close>
  "invalid_format r = (\<not> truthy (r_id r) \<or> \<not> truthy (r_title r) \<or> r_completed r = None)"

definition as_todo :: "importRecord \<Rightarrow> todo" where
  \<comment> \<open>the object handed to \<open>put\<close>; called on records that passed the validation only\<close>
  "as_todo r =
     \<lparr>id' = (case r_id r of None \<Rightarrow> [] | Some k \<Rightarrow> k),
      title = (case r_title r of None \<Rightarrow> [] | Some s \<Rightarrow> s),
      notes' = r_notes r,
      dueDate = r_dueDate r,
      priority = r_priority r,
      tags = r_tags r,
      completed = (case r_completed r of None \<Rightarrow> False | Some c \<Rightarrow> c),
      createdAt = r_createdAt r,
      updatedAt = r_updatedAt r\<rparr>"

fun importTodos_loop ::
  "(nat \<Rightarrow> bool) \<Rightarrow> (nat \<Rightarrow> string) \<Rightarrow> nat \<Rightarrow> importRecord list \<Rightarrow> table \<Rightarrow> error + unit \<times> table" where
  "importTodos_loop flt hnow i [] rows = Inr ((), rows)"
| "importTodos_loop flt hnow i (r # rs) rows =
     (if invalid_format r then Inl (Error ''Invalid todo format'')
      else case table_put (flt (Suc i)) (hnow i) (as_todo r) rows of
             Inl e \<Rightarrow> Inl e
           | Inr rows' \<Rightarrow> importTodos_loop flt hnow (Suc i) rs rows')"

definition importTodos ::
  "(nat \<Rightarrow> bool) \<Rightarrow> (nat \<Rightarrow> string) \<Rightarrow> parsed \<Rightarrow> bool \<Rightarrow> table \<Rightarrow> (error + nat) \<times> table" where
  \<comment> \<open>\<open>flt 0\<close> is the request of \<open>clear\<close>, \<open>flt (Suc i)\<close> the one of the \<open>put\<close> of record \<open>i\<close>;
      \<open>hnow i\<close> is the clock as the creating hook reads it at that \<open>put\<close>\<close>
  "importTodos flt hnow jsonData overwrite rows =
     (case jsonData of
        SyntaxError \<Rightarrow> (Inl (DatabaseError ''Failed to import todos'' (Error ''SyntaxError'')), rows)
      | NotArray \<Rightarrow>
          (Inl (DatabaseError ''Failed to import todos''
                  (Error ''Invalid JSON format: expected array of todos'')), rows)
      | Array todos \<Rightarrow>
          (case (if overwrite then table_clear (flt 0) rows else Inr rows) of
             Inl e \<Rightarrow> (Inl (DatabaseError ''Failed to import todos'' e), rows)
           | Inr rows1 \<Rightarrow>
               (case transaction (importTodos_loop flt hnow 0 todos) rows1 of
                  (Inl e, rows2) \<Rightarrow> (Inl (DatabaseError ''Failed to import todos'' e), rows2)
                | (Inr u, rows2) \<Rightarrow> (Inr (length todos), rows2))))"

section \<open>The service worker (sw.js)\<close>

text \<open>
  A request is its method and the parts of its URL the worker reads; its headers are not
  modelled, so two requests of one method and URL are one request. A response is its
  status, its content type, the field names of its \<open>Vary\<close> header and its body. A cache
  maps requests to responses, the cache storage maps cache names to caches, and the
  network is a function that answers a request with a response or fails (\<open>None\<close>: the
  promise of \<open>fetch\<close> rejects). A strategy returns the response it resolves with, or the
  error it throws, and the cache storage it leaves.

  The caches are the ones of the platform, not code of the worker. Their operations are
  modelled as the platform defines them: \<open>caches.open\<close> and \<open>cache.match\<close> succeed;
  \<open>cache.put\<close> and \<open>cache.addAll\<close> reject a request that is no GET request, a partial
  response (status 206) and a response whose \<open>Vary\<close> header has \<open>*\<close>, and they reject
  when the storage has no room, which is the argument \<open>full\<close> of the model. The scheme of
  a request is not modelled: the listener of \<open>fetch\<close> hands over the requests of the
  worker's own origin only, whose scheme is http or https.
\<close>

record request =
  req_method :: string
  req_origin :: string
  req_pathname :: string
  req_search :: string

record response =
  resp_status :: nat
  resp_contentType :: string
  resp_vary :: "string list"
  resp_body :: string

type_synonym cache = "request \<rightharpoonup> response"
type_synonym cacheStorage = "string \<rightharpoonup> cache"
type_synonym network = "request \<Rightarrow> response option"

definition CACHE_NAME :: string where
  "CACHE_NAME = ''todo-pwa-v1''"

definition OFFLINE_URL :: string where
  "OFFLINE_URL = ''/offline''"

definition STATIC_CACHE_FILES :: "string list" where
  "STATIC_CACHE_FILES = [''/'', ''/offline'', ''/today'', ''/completed'', ''/manifest.webmanifest'']"





definition ok :: "response \<Rightarrow> bool" where
  \<comment> \<open>\<open>response.ok\<close>\<close>
  "ok r = (200 \<le> resp_status r \<and> resp_status r \<le> 299)"

definition cache_refuses :: "response \<Rightarrow> bool" where
  \<comment> \<open>the responses \<open>cache.put\<close> and \<open>cache.addAll\<close> reject with a \<open>TypeError\<close>: a partial
      response and a response whose \<open>Vary\<close> header has \<open>*\<close>\<close>
  "cache_refuses resp = (resp_status resp = 206 \<or> ''*'' \<in> set (resp_vary resp))"

definition url_request :: "string \<Rightarrow> string \<Rightarrow> request" where
  \<comment> \<open>the GET request a path of the worker's own origin stands for\<close>
  "url_request self_origin path =
     \<lparr>req_method = ''GET'', req_origin = self_origin, req_pathname = path, req_search = []\<rparr>"

definition caches_open :: "string \<Rightarrow> cacheStorage \<Rightarrow> cacheStorage" where
  \<comment> \<open>\<open>caches.open(name)\<close> creates the cache when there is none of that name\<close>
  "caches_open name cs = (case cs name of None \<Rightarrow> cs(name \<mapsto> Map.empty) | Some c \<Rightarrow> cs)"

definition cache_match :: "string \<Rightarrow> request \<Rightarrow> cacheStorage \<Rightarrow> response option" where
  \<comment> \<open>\<open>cache.match(request)\<close>: nothing matches a request that is no GET request\<close>
  "cache_match name r cs =
     (if req_method r \<noteq> ''GET'' then None
      else case cs name of None \<Rightarrow> None | Some c \<Rightarrow> c r)"

definition store_entry :: "string \<Rightarrow> request \<Rightarrow> response \<Rightarrow> cacheStorage \<Rightarrow> cacheStorage" where
  \<comment> \<open>the cache storage with the response stored under the request in the cache\<close>
  "store_entry name r resp cs =
     (case cs name of None \<Rightarrow> cs(name \<mapsto> [r \<mapsto> resp]) | Some c \<Rightarrow> cs(name \<mapsto> c(r \<mapsto> resp)))"



fun fetch_all :: "network \<Rightarrow> request list \<Rightarrow> (request \<times> response) list option" where
  \<comment> \<open>the responses \<open>cache.addAll\<close> fetches, or \<open>None\<close> when a request is no GET request, a
      fetch fails, or a response is not ok or one that the cache refuses\<close>
  "fetch_all net [] = Some []"
| "fetch_all net (r # rs) =
     (if req_method r \<noteq> ''GET'' then None
      else case net r of
             None \<Rightarrow> None
           | Some resp \<Rightarrow>
               if ok resp \<and> \<not> cache_refuses resp
               then map_option ((#) (r, resp)) (fetch_all net rs) else None)"

definition cache_addAll ::
  "network \<Rightarrow> bool \<Rightarrow> string \<Rightarrow> request list \<Rightarrow> cacheStorage \<Rightarrow> error + cacheStorage" where
  \<comment> \<open>\<open>cache.addAll(requests)\<close>: every request is fetched; the promise rejects and nothing
      is stored when \<open>fetch_all\<close> gives nothing, when two of the requests are the same, or
      when the storage has no room; else all the responses are stored\<close>
  "cache_addAll net full name rs cs =
     (case fetch_all net rs of
        None \<Rightarrow> Inl (Error ''TypeError'')
      | Some ps \<Rightarrow>
          if \<not> distinct rs then Inl (Error ''InvalidStateError'')
          else if full then Inl (Error ''QuotaExceededError'')
          else Inr (foldl (\<lambda>c (r, resp). store_entry name r resp c) cs ps))"

datatype settled = Fulfilled | Rejected error

datatype worker_state = installing | installed | activating | activated | redundant

record installation =
  inst_promise :: settled
  inst_caches :: cacheStorage
  inst_skipWaiting :: bool

definition install :: "network \<Rightarrow> bool \<Rightarrow> string \<Rightarrow> cacheStorage \<Rightarrow> installation" where
  \<comment> \<open>the promise the listener of \<open>install\<close> hands to \<open>event.waitUntil\<close>, the cache
      storage it leaves and whether it called \<open>self.skipWaiting()\<close>; the \<open>catch\<close> logs the
      error and returns\<close>
  "install net full self_origin cs =
     (let cs1 = caches_open CACHE_NAME cs
      in case cache_addAll net full CACHE_NAME (map (url_request self_origin) STATIC_CACHE_FILES) cs1 of
           Inl error \<Rightarrow> \<lparr>inst_promise = Fulfilled, inst_caches = cs1, inst_skipWaiting = False\<rparr>
         | Inr cs2 \<Rightarrow> \<lparr>inst_promise = Fulfilled, inst_caches = cs2, inst_skipWaiting = True\<rparr>)"

definition state_after_install :: "settled \<Rightarrow> worker_state" where
  \<comment> \<open>the rule of the hosting environment: an installing worker whose \<open>waitUntil\<close> promise
      fulfils becomes \<open>installed\<close> (it waits), one whose promise rejects becomes
      \<open>redundant\<close>\<close>
  "state_after_install p = (case p of Fulfilled \<Rightarrow> installed | Rejected e \<Rightarrow> redundant)"










section \<open>Inputs of the examples\<close>

definition engine_ok :: "nat \<Rightarrow> bool" where
  \<comment> \<open>a storage engine that serves every request\<close>
  "engine_ok i = False"

definition network_down :: network where
  \<comment> \<open>a network on which every fetch fails\<close>
  "network_down r = None"

definition blank_dto :: createTodoDto where
  "blank_dto = \<lparr>dto_title = ''  '', dto_notes = None, dto_dueDate = None, dto_priority = None,
                 dto_tags = None\<rparr>"

definition milk_dto :: createTodoDto where
  "milk_dto = \<lparr>dto_title = ''Buy milk'', dto_notes = None, dto_dueDate = None,
                dto_priority = None, dto_tags = None\<rparr>"

definition sample_todo :: "string \<Rightarrow> string \<Rightarrow> todo" where
  \<comment> \<open>a pending entity of the given id, created and last updated at the given time\<close>
  "sample_todo k at =
     \<lparr>id' = k, title = ''Buy milk'', notes' = None, dueDate = None, priority = normal,
      tags = [], completed = False, createdAt = at, updatedAt = at\<rparr>"

definition reject_at :: "nat \<Rightarrow> nat \<Rightarrow> bool" where
  \<comment> \<open>a storage engine that rejects the request of position \<open>n\<close> and serves the others\<close>
  "reject_at n i = (i = n)"

definition clock_at :: "string \<Rightarrow> nat \<Rightarrow> string" where
  \<comment> \<open>a clock that reads the same time at every \<open>put\<close> of an import\<close>
  "clock_at at i = at"

definition blank_record :: importRecord where
  \<comment> \<open>a record that passes the validation of the import: its title is one space\<close>
  "blank_record =
     \<lparr>r_id = Some ''a'', r_title = Some '' '', r_notes = None, r_dueDate = None,
      r_priority = normal, r_tags = [], r_completed = Some False,
      r_createdAt = ''2026-01-01T00:00:00.000Z'', r_updatedAt = ''2026-01-01T00:00:00.000Z''\<rparr>"

definition no_id_record :: importRecord where
  \<comment> \<open>a record without id\<close>
  "no_id_record = blank_record\<lparr>r_id := None, r_title := Some ''Walk the dog''\<rparr>"

definition record_of :: "string \<Rightarrow> string \<Rightarrow> importRecord" where
  \<comment> \<open>a well-formed record of the given id and title\<close>
  "record_of k s = blank_record\<lparr>r_id := Some k, r_title := Some s\<rparr>"

definition tag_filter :: "string \<Rightarrow> todoFilter" where
  \<comment> \<open>the filter \<open>{ tag: g }\<close>\<close>
  "tag_filter g =
     \<lparr>f_completed = None, f_tag = Some g, f_dueBefore = None, f_dueAfter = None,
      f_priority = None, f_search = None\<rparr>"

definition pending_work_filter :: todoFilter where
  \<comment> \<open>the filter \<open>{ completed: false, tag: "work" }\<close>\<close>
  "pending_work_filter = (tag_filter ''work'')\<lparr>f_completed := Some False\<rparr>"

definition three_todos :: table where
  "three_todos =
     [(sample_todo ''a'' ''2026-01-01T00:00:00.000Z'')\<lparr>tags := [''work'']\<rparr>,
      (sample_todo ''b'' ''2026-01-02T00:00:00.000Z'')\<lparr>tags := [''home'']\<rparr>,
      (sample_todo ''c'' ''2026-01-03T00:00:00.000Z'')
        \<lparr>tags := [''urgent'', ''work''], dueDate := Some ''2026-01-04T00:00:00.000Z''\<rparr>,
      (sample_todo ''d'' ''2026-01-04T00:00:00.000Z'')\<lparr>tags := [''work''], completed := True\<rparr>]"

definition app_origin :: string where
  "app_origin = ''https://todo.example''"

definition no_caches :: cacheStorage where
  \<comment> \<open>a cache storage without any cache\<close>
  "no_caches = Map.empty"

definition network_up :: network where
  \<comment> \<open>a network that answers every request with status 200 and the path as body\<close>
  "network_up r =
     Some \<lparr>resp_status = 200, resp_contentType = ''text/html'', resp_vary = [],
           resp_body = req_pathname r\<rparr>"

definition network_partial :: network where
  \<comment> \<open>a network that answers every request with a partial response, of status 206\<close>
  "network_partial r =
     Some \<lparr>resp_status = 206, resp_contentType = ''application/json'', resp_vary = [],
           resp_body = ''[''\<rparr>"

definition stale_response :: response where
  "stale_response =
     \<lparr>resp_status = 200, resp_contentType = ''application/json'', resp_vary = [],
      resp_body = ''[]''\<rparr>"

definition old_precache :: cacheStorage where
  \<comment> \<open>a cache storage whose precache has an entry for the offline page, left by an
      earlier installation\<close>
  "old_precache = store_entry CACHE_NAME (url_request app_origin OFFLINE_URL) stale_response no_caches"



section \<open>Notions of the statements\<close>





definition toggled :: "string \<Rightarrow> bool \<Rightarrow> string \<Rightarrow> table \<Rightarrow> table" where
  \<comment> \<open>the table in which the rows of key \<open>k\<close> have the flag \<open>c\<close> and were updated at \<open>now\<close>\<close>
  "toggled k c now rows =
     map (\<lambda>x. if id' x = k then x\<lparr>completed := c, updatedAt := now\<rparr> else x) rows"

definition marked_complete :: "string \<Rightarrow> todo \<Rightarrow> todo" where
  "marked_complete now t = t\<lparr>completed := True, updatedAt := now\<rparr>"


definition provided :: "string option \<Rightarrow> string option" where
  \<comment> \<open>the value of an optional text field of a filter, the empty text counting as absent\<close>
  "provided x = (case x of None \<Rightarrow> None | Some s \<Rightarrow> if s = [] then None else Some s)"

definition satisfies_as_stated :: "todoFilter \<Rightarrow> todo \<Rightarrow> bool" where
  \<comment> \<open>the conjunction of the predicates of the fields the filter has\<close>
  "satisfies_as_stated f t =
     ((case f_completed f of None \<Rightarrow> True | Some b \<Rightarrow> completed t = b)
      \<and> (case f_tag f of None \<Rightarrow> True | Some tag \<Rightarrow> tag \<in> set (tags t))
      \<and> (case f_priority f of None \<Rightarrow> True | Some p \<Rightarrow> priority t = p)
      \<and> (case f_dueBefore f of None \<Rightarrow> True | Some b \<Rightarrow> due_le t b)
      \<and> (case f_dueAfter f of None \<Rightarrow> True | Some a \<Rightarrow> due_ge t a)
      \<and> (case f_search f of None \<Rightarrow> True | Some s \<Rightarrow> search_hit (toLowerCase s) t))"

definition satisfies :: "todoFilter \<Rightarrow> todo \<Rightarrow> bool" where
  \<comment> \<open>the same conjunction, a text field that is the empty text counting as absent\<close>
  "satisfies f t =
     ((case f_completed f of None \<Rightarrow> True | Some b \<Rightarrow> completed t = b)
      \<and> (case provided (f_tag f) of None \<Rightarrow> True | Some tag \<Rightarrow> tag \<in> set (tags t))
      \<and> (case f_priority f of None \<Rightarrow> True | Some p \<Rightarrow> priority t = p)
      \<and> (case provided (f_dueBefore f) of None \<Rightarrow> True | Some b \<Rightarrow> due_le t b)
      \<and> (case provided (f_dueAfter f) of None \<Rightarrow> True | Some a \<Rightarrow> due_ge t a)
      \<and> (case provided (f_search f) of None \<Rightarrow> True | Some s \<Rightarrow> search_hit (toLowerCase s) t))"

definition counted_overdue :: "string \<Rightarrow> todo \<Rightarrow> bool" where
  \<comment> \<open>incomplete, with a due date (a text that is not empty), which is before \<open>now\<close>\<close>
  "counted_overdue now t =
     (\<not> completed t \<and> (case dueDate t of None \<Rightarrow> False | Some d \<Rightarrow> d \<noteq> [] \<and> d < now))"

definition fetched_ok :: "network \<Rightarrow> request \<Rightarrow> bool" where
  \<comment> \<open>the fetch of the request succeeds with a response that is ok, not partial and
      without \<open>*\<close> in its \<open>Vary\<close> header\<close>
  "fetched_ok net r =
     (case net r of None \<Rightarrow> False | Some resp \<Rightarrow> ok resp \<and> \<not> cache_refuses resp)"


definition shell_requests :: "string \<Rightarrow> request list" where
  \<comment> \<open>the requests of the shell resources\<close>
  "shell_requests self_origin = map (url_request self_origin) STATIC_CACHE_FILES"

section \<open>Creating and reading an entity\<close>

lemma find_append_new:
  "\<not> has_key k rows \<Longrightarrow> id' obj = k \<Longrightarrow> find (\<lambda>t. id' t = k) (rows @ [obj]) = Some obj"
  by (induction rows) (auto simp: has_key_def)

text \<open>
  C3, as stated, fails: \<open>createTodo\<close> does not validate the title. Creating an entity
  with the title of two spaces succeeds and stores the empty title.
\<close>

theorem createTodo_blank_title_accepted:
  "createTodo engine_ok ''id-1'' ''2026-01-01T00:00:00.000Z'' ''2026-01-01T00:00:00.001Z'' blank_dto []
   = (Inr ''id-1'',
      [\<lparr>id' = ''id-1'', title = [], notes' = None, dueDate = None, priority = normal, tags = [],
        completed = False, createdAt = ''2026-01-01T00:00:00.001Z'',
        updatedAt = ''2026-01-01T00:00:00.001Z''\<rparr>])"
  by (simp add: createTodo_def table_add_def engine_ok_def has_key_def hook_creating_def
      blank_dto_def trim_def is_space_def)

text \<open>
  C3, amended: with an id that is not in the table and a storage engine that serves the
  requests, \<open>createTodo\<close> returns that id and stores one new entity, which \<open>getTodo\<close> of the
  id then returns: its title is the trimmed title of the data (whatever it is), it is
  not completed, its priority defaults to normal and its tags to none, and \<open>createdAt\<close>
  and \<open>updatedAt\<close> are both the clock as the creating hook reads it.
\<close>

theorem createTodo_getTodo:
  assumes "\<not> flt 0" and "\<not> has_key uuid rows" and "\<not> flt' 0"
  shows "let e = \<lparr>id' = uuid, title = trim (dto_title dto), notes' = map_option trim (dto_notes dto),
                  dueDate = dto_dueDate dto,
                  priority = (case dto_priority dto of None \<Rightarrow> normal | Some p \<Rightarrow> p),
                  tags = (case dto_tags dto of None \<Rightarrow> [] | Some ts \<Rightarrow> ts),
                  completed = False, createdAt = hnow, updatedAt = hnow\<rparr>
         in createTodo flt uuid now hnow dto rows = (Inr uuid, rows @ [e])
            \<and> getTodo flt' uuid (rows @ [e]) = Inr e"
  using assms
  by (simp add: createTodo_def table_add_def hook_creating_def getTodo_def table_get_def
      find_append_new Let_def)

theorem createTodo_getTodo_witness:
  "createTodo engine_ok ''id-1'' ''2026-01-01T00:00:00.000Z'' ''2026-01-01T00:00:00.001Z'' milk_dto []
     = (Inr ''id-1'',
        [\<lparr>id' = ''id-1'', title = ''Buy milk'', notes' = None, dueDate = None, priority = normal,
          tags = [], completed = False, createdAt = ''2026-01-01T00:00:00.001Z'',
          updatedAt = ''2026-01-01T00:00:00.001Z''\<rparr>])
   \<and> getTodo engine_ok ''id-1''
        [\<lparr>id' = ''id-1'', title = ''Buy milk'', notes' = None, dueDate = None, priority = normal,
          tags = [], completed = False, createdAt = ''2026-01-01T00:00:00.001Z'',
          updatedAt = ''2026-01-01T00:00:00.001Z''\<rparr>]
     = Inr \<lparr>id' = ''id-1'', title = ''Buy milk'', notes' = None, dueDate = None, priority = normal,
          tags = [], completed = False, createdAt = ''2026-01-01T00:00:00.001Z'',
          updatedAt = ''2026-01-01T00:00:00.001Z''\<rparr>"
  using createTodo_getTodo [of engine_ok "''id-1''" "[]" engine_ok milk_dto
      "''2026-01-01T00:00:00.001Z''" "''2026-01-01T00:00:00.000Z''"]
  by (simp add: engine_ok_def has_key_def milk_dto_def trim_def is_space_def Let_def)

section \<open>Facts about strings and the table\<close>





lemma id_apply_changes [simp]: "id' (apply_changes ch t) = id' t"
  by (simp add: apply_changes_def)

lemma find_map_same_key:
  assumes "\<And>t. id' (g t) = id' t"
  shows "find (\<lambda>t. id' t = k) (map (\<lambda>t. if id' t = k then g t else t) rows)
         = map_option g (find (\<lambda>t. id' t = k) rows)"
  using assms by (induction rows) auto

lemma find_Some_key: "find (\<lambda>t. id' t = k) rows = Some t \<Longrightarrow> id' t = k \<and> t \<in> set rows"
  by (induction rows) (auto split: if_splits)

lemma find_None_key: "find (\<lambda>t. id' t = k) rows = None \<Longrightarrow> \<forall>t\<in>set rows. id' t \<noteq> k"
  by (induction rows) (auto split: if_splits)

lemma table_update_eq:
  "table_update rej cu k ch rows =
     (if rej then Inl StorageFailure
      else case find (\<lambda>t. id' t = k) rows of
             None \<Rightarrow> Inr (0, rows)
           | Some t0 \<Rightarrow>
               if anything_modified ch t0 \<or> cu
               then Inr (1, map (\<lambda>t. if id' t = k then apply_changes ch t else t) rows)
               else Inr (0, rows))"
  by (simp add: table_update_def hook_updating_def cong: option.case_cong if_cong)

lemma table_put_eq:
  "table_put rej hnow obj rows =
     (if rej then Inl StorageFailure
      else if has_key (id' obj) rows
      then Inr (map (\<lambda>t. if id' t = id' obj then obj else t) rows)
      else Inr (rows @ [hook_creating hnow obj]))"
  by (simp add: table_put_def hook_updating_def cong: if_cong)

lemma transaction_cases:
  "transaction body rows = (r, rows') \<Longrightarrow>
   (\<exists>e. body rows = Inl e \<and> r = Inl e \<and> rows' = rows) \<or> (\<exists>v. body rows = Inr (v, rows') \<and> r = Inr v)"
  by (auto simp: transaction_def split: sum.splits)

section \<open>Toggling\<close>

lemma toggle_changes:
  "apply_changes \<lparr>p_title = None, p_notes = None, p_dueDate = None, p_priority = None,
      p_tags = None, p_completed = Some c, p_updatedAt = Some now\<rparr> t
   = t\<lparr>completed := c, updatedAt := now\<rparr>"
  by (simp add: apply_changes_def)

lemma updateTodo_completed:
  assumes "\<not> flt 0" "\<not> flt 1" "find (\<lambda>t. id' t = k) rows = Some t"
  shows "updateTodo flt cu now k (completed_dto (\<not> completed t)) rows
         = (Inr (), map (\<lambda>x. if id' x = k then x\<lparr>completed := \<not> completed t, updatedAt := now\<rparr> else x) rows)"
proof -
  have "t\<lparr>completed := \<not> completed t, updatedAt := now\<rparr> \<noteq> t"
    by (metis todo.select_convs(7) todo.surjective todo.update_convs(7) todo.update_convs(9))
  then show ?thesis
    using assms
    by (simp add: updateTodo_def getTodo_def table_get_def table_update_def completed_dto_def
        anything_modified_def toggle_changes hook_updating_def Let_def)
qed

lemma updateTodo_missing:
  assumes "\<not> flt 0" "find (\<lambda>t. id' t = k) rows = None"
  shows "updateTodo flt cu now k dto rows = (Inl (TodoNotFoundError k), rows)"
  using assms by (simp add: updateTodo_def getTodo_def table_get_def rethrow_or_wrap_def)

lemma toggleTodo_existing:
  assumes "\<not> flt 0" "\<not> flt 1" "\<not> flt 2" "find (\<lambda>t. id' t = k) rows = Some t"
  shows "toggleTodo flt cu now k rows
         = (Inr (), map (\<lambda>x. if id' x = k then x\<lparr>completed := \<not> completed t, updatedAt := now\<rparr> else x) rows)"
proof -
  have "\<not> flt (Suc 0)" "\<not> flt (Suc 1)"
    using assms by (simp_all add: numeral_2_eq_2)
  then have "updateTodo (\<lambda>i. flt (Suc i)) cu now k (completed_dto (\<not> completed t)) rows
         = (Inr (), map (\<lambda>x. if id' x = k then x\<lparr>completed := \<not> completed t, updatedAt := now\<rparr> else x) rows)"
    using assms(4) by (intro updateTodo_completed) simp_all
  then show ?thesis
    using assms by (simp add: toggleTodo_def getTodo_def table_get_def)
qed

lemma toggleTodo_missing:
  assumes "\<not> flt 0" "find (\<lambda>t. id' t = k) rows = None"
  shows "toggleTodo flt cu now k rows = (Inl (TodoNotFoundError k), rows)"
  using assms by (simp add: toggleTodo_def getTodo_def table_get_def rethrow_or_wrap_def)

lemma find_toggled:
  "find (\<lambda>t. id' t = k) rows = Some t \<Longrightarrow>
   find (\<lambda>t. id' t = k) (toggled k c now rows) = Some (t\<lparr>completed := c, updatedAt := now\<rparr>)"
  unfolding toggled_def
  using find_map_same_key [of "\<lambda>x. x\<lparr>completed := c, updatedAt := now\<rparr>" k rows] by simp

text \<open>
  C8, as stated, fails: \<open>updatedAt\<close> after a toggle is the clock reading of that toggle,
  which need not be later than the value before. Toggling an entity at the very clock
  reading of its last update flips the flag and leaves \<open>updatedAt\<close> as it was.
\<close>

theorem toggleTodo_same_clock_reading:
  "toggleTodo engine_ok True ''2026-01-01T00:00:00.000Z'' ''a'' [sample_todo ''a'' ''2026-01-01T00:00:00.000Z'']
     = (Inr (), [(sample_todo ''a'' ''2026-01-01T00:00:00.000Z'')\<lparr>completed := True\<rparr>])
   \<and> \<not> updatedAt (sample_todo ''a'' ''2026-01-01T00:00:00.000Z'')
        < updatedAt ((sample_todo ''a'' ''2026-01-01T00:00:00.000Z'')\<lparr>completed := True\<rparr>)"
  by (simp add: toggleTodo_def updateTodo_def getTodo_def table_get_def table_update_eq
      engine_ok_def sample_todo_def completed_dto_def anything_modified_def apply_changes_def)

text \<open>
  C8, amended: with a storage engine that serves the requests, \<open>toggleTodo\<close> of an id
  that is not in the table fails with \<open>TodoNotFoundError\<close> and leaves the table, as
  \<open>updateTodo\<close> does. For an id whose entity is \<open>t\<close>, \<open>toggleTodo\<close> is \<open>updateTodo\<close> with the
  negated flag: the entity gets the flag negated and \<open>updatedAt\<close> set to the clock reading
  of the call. A second toggle restores the flag of \<open>t\<close> and sets \<open>updatedAt\<close> to the
  clock reading of the second call; the other fields stay. So \<open>updatedAt\<close> strictly
  increases on each toggle exactly when each clock reading is later than the value
  before.
\<close>

theorem toggleTodo_twice:
  assumes "\<not> flt 0" and "\<not> flt 1" and "\<not> flt 2"
  shows "case find (\<lambda>t. id' t = k) rows of
           None \<Rightarrow> toggleTodo flt cu now k rows = (Inl (TodoNotFoundError k), rows)
                  \<and> updateTodo flt cu now k dto rows = (Inl (TodoNotFoundError k), rows)
         | Some t \<Rightarrow>
             updateTodo flt cu now k (completed_dto (\<not> completed t)) rows = toggleTodo flt cu now k rows
             \<and> toggleTodo flt cu now k rows = (Inr (), toggled k (\<not> completed t) now rows)
             \<and> getTodo flt k (toggled k (\<not> completed t) now rows)
                 = Inr (t\<lparr>completed := \<not> completed t, updatedAt := now\<rparr>)
             \<and> toggleTodo flt cu later k (toggled k (\<not> completed t) now rows)
                 = (Inr (), toggled k (completed t) later rows)
             \<and> getTodo flt k (toggled k (completed t) later rows) = Inr (t\<lparr>updatedAt := later\<rparr>)"
proof (cases "find (\<lambda>t. id' t = k) rows")
  case None
  then show ?thesis
    using assms by (simp add: toggleTodo_missing updateTodo_missing)
next
  case (Some t)
  let ?r1 = "toggled k (\<not> completed t) now rows"
  have f1: "find (\<lambda>t. id' t = k) ?r1 = Some (t\<lparr>completed := \<not> completed t, updatedAt := now\<rparr>)"
    using Some by (rule find_toggled)
  have t1: "toggleTodo flt cu now k rows = (Inr (), ?r1)"
    using assms Some by (simp add: toggleTodo_existing toggled_def)
  have u1: "updateTodo flt cu now k (completed_dto (\<not> completed t)) rows = (Inr (), ?r1)"
    using assms Some by (simp add: updateTodo_completed toggled_def)
  have t2: "toggleTodo flt cu later k ?r1 = (Inr (), toggled k (completed t) later rows)"
    using assms toggleTodo_existing [OF assms f1, where now = later and cu = cu]
    by (simp add: toggled_def comp_def)
  have f2: "find (\<lambda>t. id' t = k) (toggled k (completed t) later rows) = Some (t\<lparr>updatedAt := later\<rparr>)"
    using find_toggled [OF Some, of "completed t" later] by simp
  show ?thesis
    using Some assms t1 u1 t2 f1 f2 by (simp add: getTodo_def table_get_def)
qed

theorem toggleTodo_twice_witness:
  "toggleTodo engine_ok True ''2026-01-01T00:00:00.001Z'' ''a'' [sample_todo ''a'' ''2026-01-01T00:00:00.000Z'']
     = (Inr (), [(sample_todo ''a'' ''2026-01-01T00:00:00.000Z'')
                  \<lparr>completed := True, updatedAt := ''2026-01-01T00:00:00.001Z''\<rparr>])
   \<and> toggleTodo engine_ok True ''2026-01-01T00:00:00.002Z'' ''a''
        [(sample_todo ''a'' ''2026-01-01T00:00:00.000Z'')
           \<lparr>completed := True, updatedAt := ''2026-01-01T00:00:00.001Z''\<rparr>]
     = (Inr (), [(sample_todo ''a'' ''2026-01-01T00:00:00.000Z'')
                  \<lparr>updatedAt := ''2026-01-01T00:00:00.002Z''\<rparr>])
   \<and> toggleTodo engine_ok True ''2026-01-01T00:00:00.001Z'' ''b'' [sample_todo ''a'' ''2026-01-01T00:00:00.000Z'']
     = (Inl (TodoNotFoundError ''b''), [sample_todo ''a'' ''2026-01-01T00:00:00.000Z''])"
  using toggleTodo_twice [where flt = engine_ok and cu = True and k = "''a''"
      and rows = "[sample_todo ''a'' ''2026-01-01T00:00:00.000Z'']"
      and now = "''2026-01-01T00:00:00.001Z''" and dto = "completed_dto True"
      and later = "''2026-01-01T00:00:00.002Z''"]
    toggleTodo_twice [where flt = engine_ok and cu = True and k = "''b''"
      and rows = "[sample_todo ''a'' ''2026-01-01T00:00:00.000Z'']"
      and now = "''2026-01-01T00:00:00.001Z''" and dto = "completed_dto True"
      and later = "''2026-01-01T00:00:00.002Z''"]
  by (simp add: engine_ok_def sample_todo_def toggled_def)

section \<open>The invariant of the stored entities\<close>

















section \<open>Bulk operations\<close>

lemma complete_changes: "apply_changes (complete_updates now) t = marked_complete now t"
  by (simp add: apply_changes_def complete_updates_def marked_complete_def)

lemma table_update_complete:
  assumes "distinct (map id' rows)" "\<not> rej"
  shows "\<exists>n. table_update rej cu k (complete_updates now) rows
           = Inr (n, map (\<lambda>t. if id' t = k then marked_complete now t else t) rows)"
proof (cases "find (\<lambda>t. id' t = k) rows")
  case None
  then have "map (\<lambda>t. if id' t = k then marked_complete now t else t) rows = rows"
    using find_None_key [OF None] by (simp add: map_idI)
  then show ?thesis
    using None assms(2) by (simp add: table_update_eq)
next
  case (Some t0)
  show ?thesis
  proof (cases "anything_modified (complete_updates now) t0")
    case True
    then show ?thesis
      using Some assms(2) by (simp add: table_update_eq complete_changes)
  next
    case False
    then have same: "marked_complete now t0 = t0"
      by (simp add: anything_modified_def complete_changes)
    have "t = t0" if "t \<in> set rows" "id' t = k" for t
      using that find_Some_key [OF Some] assms(1) by (auto simp: distinct_map dest: inj_onD)
    then have "map (\<lambda>t. if id' t = k then marked_complete now t else t) rows = rows"
      using same by (intro map_idI) auto
    then show ?thesis
      using Some False assms(2)
      by (cases cu) (simp_all add: table_update_eq complete_changes cong: if_cong)
  qed
qed

lemma bulkComplete_loop_ok:
  assumes "distinct (map id' rows)" "\<forall>j<length ids. \<not> flt (i + j)"
  shows "bulkComplete_loop flt cu i (complete_updates now) ids rows
         = Inr ((), map (\<lambda>t. if id' t \<in> set ids then marked_complete now t else t) rows)"
  using assms
proof (induction ids arbitrary: i rows)
  case Nil
  then show ?case by simp
next
  case (Cons k ks)
  let ?rows1 = "map (\<lambda>t. if id' t = k then marked_complete now t else t) rows"
  have "\<not> flt i"
    using Cons.prems(2) by force
  then obtain n where step: "table_update (flt i) cu k (complete_updates now) rows = Inr (n, ?rows1)"
    using table_update_complete [OF Cons.prems(1), where rej = "flt i" and k = k and now = now
        and cu = cu]
    by auto
  have d1: "distinct (map id' ?rows1)"
  proof -
    have same: "map id' ?rows1 = map id' rows"
      by (induction rows) (auto simp: marked_complete_def)
    show ?thesis using Cons.prems(1) by (simp only: same)
  qed
  have nf: "\<forall>j<length ks. \<not> flt (Suc i + j)"
    using Cons.prems(2) by force
  have "bulkComplete_loop flt cu (Suc i) (complete_updates now) ks ?rows1
        = Inr ((), map (\<lambda>t. if id' t \<in> set ks then marked_complete now t else t) ?rows1)"
    using Cons.IH [OF d1 nf] .
  moreover have "map (\<lambda>t. if id' t \<in> set ks then marked_complete now t else t) ?rows1
        = map (\<lambda>t. if id' t \<in> set (k # ks) then marked_complete now t else t) rows"
    by (auto simp: marked_complete_def)
  ultimately show ?case
    using step by simp
qed

lemma bulkComplete_loop_fail:
  assumes "\<exists>j<length ids. flt (i + j)"
  shows "bulkComplete_loop flt cu i ch ids rows = Inl StorageFailure"
  using assms
proof (induction ids arbitrary: i rows)
  case Nil
  then show ?case by simp
next
  case (Cons k ks)
  show ?case
  proof (cases "flt i")
    case True
    then show ?thesis by (simp add: table_update_eq)
  next
    case False
    from Cons.prems obtain j where j: "j < Suc (length ks)" "flt (i + j)"
      by auto
    with False have "j \<noteq> 0" by (cases j) auto
    then obtain j' where "j = Suc j'" by (cases j) auto
    with j have "\<exists>j<length ks. flt (Suc i + j)" by auto
    then have "bulkComplete_loop flt cu (Suc i) ch ks rows' = Inl StorageFailure" for rows'
      using Cons.IH by blast
    then show ?thesis
      using False by (cases cu) (simp_all add: table_update_eq split: option.splits)
  qed
qed

lemma bulkDelete_loop_ok:
  assumes "\<forall>j<length ids. \<not> flt (i + j)"
  shows "bulkDelete_loop flt i ids rows = Inr ((), filter (\<lambda>t. id' t \<notin> set ids) rows)"
  using assms
proof (induction ids arbitrary: i rows)
  case Nil
  then show ?case by simp
next
  case (Cons k ks)
  have "\<not> flt i"
    using Cons.prems by force
  moreover have "\<forall>j<length ks. \<not> flt (Suc i + j)"
    using Cons.prems by force
  ultimately show ?case
    using Cons.IH [of "Suc i" "filter (\<lambda>t. id' t \<noteq> k) rows"]
    by (simp add: table_delete_def conj_commute)
qed

lemma bulkDelete_loop_fail:
  assumes "\<exists>j<length ids. flt (i + j)"
  shows "bulkDelete_loop flt i ids rows = Inl StorageFailure"
  using assms
proof (induction ids arbitrary: i rows)
  case Nil
  then show ?case by simp
next
  case (Cons k ks)
  show ?case
  proof (cases "flt i")
    case True
    then show ?thesis by (simp add: table_delete_def)
  next
    case False
    from Cons.prems obtain j where j: "j < Suc (length ks)" "flt (i + j)"
      by auto
    with False have "j \<noteq> 0" by (cases j) auto
    then obtain j' where "j = Suc j'" by (cases j) auto
    with j have "\<exists>j<length ks. flt (Suc i + j)" by auto
    then have "bulkDelete_loop flt (Suc i) ks rows' = Inl StorageFailure" for rows'
      using Cons.IH by blast
    then show ?thesis
      using False by (simp add: table_delete_def)
  qed
qed

lemma list_ex_upt: "list_ex flt [0..<n] = (\<exists>j<n. flt j)"
  by (auto simp: list_ex_iff)

text \<open>
  C2, as stated, fails: an id that is not in the table is no failure of a bulk
  operation. \<open>bulkDelete\<close> of the ids a, b and c on a table that holds a and c succeeds
  and deletes a and c.
\<close>

theorem bulkDelete_missing_id_deletes_others:
  "bulkDelete engine_ok [''a'', ''b'', ''c'']
     [sample_todo ''a'' ''2026-01-01T00:00:00.000Z'', sample_todo ''c'' ''2026-01-02T00:00:00.000Z'']
   = (Inr (), [])"
  by (simp add: bulkDelete_def transaction_def table_delete_def engine_ok_def sample_todo_def)

text \<open>
  C2, amended: \<open>bulkComplete\<close> and \<open>bulkDelete\<close> are all-or-nothing with respect to the
  storage engine, on a table of distinct keys. When the engine rejects one of the
  requests of the call, the call fails with \<open>DatabaseError\<close> and the table is the one
  before the call. Otherwise the call succeeds: \<open>bulkDelete\<close> leaves the entities whose
  id is not listed, and \<open>bulkComplete\<close> marks the entities whose id is listed as
  completed, with \<open>updatedAt\<close> the clock reading of the call; a listed id that is not in
  the table is skipped.
\<close>

theorem bulk_all_or_nothing:
  assumes "distinct (map id' rows)"
  shows "if list_ex flt [0..<length ids]
         then bulkDelete flt ids rows
                = (Inl (DatabaseError ''Failed to bulk delete todos'' StorageFailure), rows)
              \<and> bulkComplete flt cu now ids rows
                = (Inl (DatabaseError ''Failed to bulk complete todos'' StorageFailure), rows)
         else bulkDelete flt ids rows = (Inr (), filter (\<lambda>t. id' t \<notin> set ids) rows)
              \<and> bulkComplete flt cu now ids rows
                = (Inr (), map (\<lambda>t. if id' t \<in> set ids then marked_complete now t else t) rows)"
proof (cases "list_ex flt [0..<length ids]")
  case True
  then have ex: "\<exists>j<length ids. flt (0 + j)"
    by (simp add: list_ex_upt)
  show ?thesis
    using True bulkDelete_loop_fail [OF ex] bulkComplete_loop_fail [OF ex]
    by (simp add: bulkDelete_def bulkComplete_def transaction_def)
next
  case False
  then have no: "\<forall>j<length ids. \<not> flt (0 + j)"
    by (simp add: list_ex_upt)
  show ?thesis
    using False bulkDelete_loop_ok [OF no] bulkComplete_loop_ok [OF assms no]
    by (simp add: bulkDelete_def bulkComplete_def transaction_def)
qed

theorem bulk_all_or_nothing_witness:
  "distinct (map id' [sample_todo ''a'' ''2026-01-01T00:00:00.000Z'', sample_todo ''c'' ''2026-01-02T00:00:00.000Z''])
   \<and> bulkDelete (reject_at 1) [''a'', ''c'']
        [sample_todo ''a'' ''2026-01-01T00:00:00.000Z'', sample_todo ''c'' ''2026-01-02T00:00:00.000Z'']
      = (Inl (DatabaseError ''Failed to bulk delete todos'' StorageFailure),
         [sample_todo ''a'' ''2026-01-01T00:00:00.000Z'', sample_todo ''c'' ''2026-01-02T00:00:00.000Z''])
   \<and> bulkComplete engine_ok True ''2026-01-03T00:00:00.000Z'' [''a'', ''b'']
        [sample_todo ''a'' ''2026-01-01T00:00:00.000Z'', sample_todo ''c'' ''2026-01-02T00:00:00.000Z'']
      = (Inr (),
         [marked_complete ''2026-01-03T00:00:00.000Z'' (sample_todo ''a'' ''2026-01-01T00:00:00.000Z''),
          sample_todo ''c'' ''2026-01-02T00:00:00.000Z''])"
  using bulk_all_or_nothing [where rows = "[sample_todo ''a'' ''2026-01-01T00:00:00.000Z'', sample_todo ''c'' ''2026-01-02T00:00:00.000Z'']"
      and flt = "reject_at 1" and ids = "[''a'', ''c'']" and now = "''2026-01-03T00:00:00.000Z''"
      and cu = True]
    bulk_all_or_nothing [where rows = "[sample_todo ''a'' ''2026-01-01T00:00:00.000Z'', sample_todo ''c'' ''2026-01-02T00:00:00.000Z'']"
      and flt = engine_ok and ids = "[''a'', ''b'']" and now = "''2026-01-03T00:00:00.000Z''"
      and cu = True]
  by (simp add: sample_todo_def reject_at_def engine_ok_def upt_rec)

section \<open>Import\<close>






lemma id_hook_creating [simp]: "id' (hook_creating h obj) = id' obj"
  by (simp add: hook_creating_def)





lemma importTodos_loop_invalid:
  assumes "list_ex invalid_format rs"
  shows "\<exists>e. importTodos_loop flt hnow i rs rows = Inl e"
  using assms
proof (induction rs arbitrary: i rows)
  case Nil
  then show ?case by simp
next
  case (Cons r rs)
  show ?case
  proof (cases "invalid_format r")
    case True
    then show ?thesis by simp
  next
    case False
    then have "list_ex invalid_format rs"
      using Cons.prems by simp
    then have "\<exists>e. importTodos_loop flt hnow (Suc i) rs rows1 = Inl e" for rows1
      using Cons.IH by blast
    then show ?thesis
      using False by (auto split: sum.splits)
  qed
qed

text \<open>
  An import with a record that fails the validation fails, and without \<open>overwrite\<close> a
  failed import leaves the table as it was: the writes of the transaction are rolled
  back.
\<close>

lemma importTodos_invalid_fails:
  assumes "list_ex invalid_format rs"
  shows "\<exists>e. fst (importTodos flt hnow (Array rs) overwrite rows) = Inl e"
proof -
  have "\<exists>e. fst (transaction (importTodos_loop flt hnow 0 rs) rows1) = Inl e" for rows1
    using importTodos_loop_invalid [OF assms, of flt hnow 0 rows1]
    by (auto simp: transaction_def)
  then show ?thesis
    by (auto simp: importTodos_def table_clear_def split: sum.splits prod.splits) (metis fst_conv sum.distinct(1))+
qed

lemma importTodos_atomic_without_overwrite:
  assumes "fst (importTodos flt hnow jsonData False rows) = Inl e"
  shows "snd (importTodos flt hnow jsonData False rows) = rows"
proof (cases jsonData)
  case (Array rs)
  obtain r rows' where t: "transaction (importTodos_loop flt hnow 0 rs) rows = (r, rows')"
    by (cases "transaction (importTodos_loop flt hnow 0 rs) rows")
  show ?thesis
    using assms Array t transaction_cases [OF t]
    by (auto simp: importTodos_def split: sum.splits)
qed (simp_all add: importTodos_def)

text \<open>
  C1: with \<open>overwrite\<close>, the claim does not hold of the code. \<open>importTodos\<close> clears the
  table before it opens the transaction of the inserts, so the rollback of a failed
  import does not bring the cleared entities back. Here the table holds one entity and
  the second record of the import has no id: the import fails and the table is empty.
\<close>

theorem importTodos_overwrite_failure_empties_store:
  "importTodos engine_ok (clock_at ''2026-01-02T00:00:00.000Z'')
     (Array [record_of ''b'' ''Call the bank'', no_id_record]) True
     [sample_todo ''a'' ''2026-01-01T00:00:00.000Z'']
   = (Inl (DatabaseError ''Failed to import todos'' (Error ''Invalid todo format'')), [])"
  by (simp add: importTodos_def table_clear_def transaction_def table_put_eq invalid_format_def
      truthy_def as_todo_def record_of_def no_id_record_def blank_record_def engine_ok_def
      clock_at_def has_key_def)





section \<open>Listing\<close>

lemma newest_first:
  "sorted_wrt (\<lambda>a b. createdAt b \<le> createdAt a) (rev (orderBy_createdAt rows))"
proof -
  have "sorted (map createdAt (orderBy_createdAt rows))"
    by (simp add: orderBy_createdAt_def)
  then have "sorted_wrt (\<lambda>a b. createdAt a \<le> createdAt b) (orderBy_createdAt rows)"
    by (simp add: sorted_wrt_map)
  then show ?thesis
    by (simp add: sorted_wrt_rev)
qed

lemma mset_orderBy: "mset (rev (orderBy_createdAt rows)) = mset rows"
  by (simp add: orderBy_createdAt_def)

lemma truthy_provided: "truthy x = (provided x \<noteq> None)"
  by (simp add: truthy_def provided_def split: option.splits)

lemma filter_stage:
  "(case x of None \<Rightarrow> xs | Some b \<Rightarrow> filter (P b) xs)
   = filter (\<lambda>t. case x of None \<Rightarrow> True | Some b \<Rightarrow> P b t) xs"
  by (cases x) simp_all

lemma filter_stage_truthy:
  "(if truthy x then (case x of None \<Rightarrow> xs | Some b \<Rightarrow> filter (P b) xs) else xs)
   = filter (\<lambda>t. case provided x of None \<Rightarrow> True | Some b \<Rightarrow> P b t) xs"
  by (cases x) (simp_all add: truthy_def provided_def)

lemma listTodos_eq:
  "listTodos flt f rows
   = (if flt 0 then Inl (DatabaseError ''Failed to list todos'' StorageFailure)
      else Inr (filter (satisfies f) (rev (orderBy_createdAt rows))))"
proof -
  have "filter (satisfies f) xs
        = filter (\<lambda>t. case provided (f_search f) of None \<Rightarrow> True | Some s \<Rightarrow> search_hit (toLowerCase s) t)
           (filter (\<lambda>t. case provided (f_dueAfter f) of None \<Rightarrow> True | Some a \<Rightarrow> due_ge t a)
             (filter (\<lambda>t. case provided (f_dueBefore f) of None \<Rightarrow> True | Some b \<Rightarrow> due_le t b)
               (filter (\<lambda>t. case f_priority f of None \<Rightarrow> True | Some p \<Rightarrow> priority t = p)
                 (filter (\<lambda>t. case provided (f_tag f) of None \<Rightarrow> True | Some tag \<Rightarrow> tag \<in> set (tags t))
                   (filter (\<lambda>t. case f_completed f of None \<Rightarrow> True | Some b \<Rightarrow> completed t = b) xs)))))"
    for xs
    by (simp add: satisfies_def conj_ac cong: filter_cong)
  then show ?thesis
    by (simp add: listTodos_def Let_def table_toArray_def
        filter_stage [where P = "\<lambda>b t. completed t = b"]
        filter_stage [where P = "\<lambda>p t. priority t = p"]
        filter_stage_truthy [where P = "\<lambda>tag t. tag \<in> set (tags t)"]
        filter_stage_truthy [where P = "\<lambda>b t. due_le t b"]
        filter_stage_truthy [where P = "\<lambda>a t. due_ge t a"]
        filter_stage_truthy [where P = "\<lambda>s. search_hit (toLowerCase s)"])
qed

text \<open>
  C7, as stated, fails for a filter whose tag is the empty text (the tag page builds it
  when the route has no tag): \<open>listTodos\<close> tests \<open>filter.tag\<close> for truthiness, takes the
  empty text as no tag at all and lists every entity, also one that has no tag.
\<close>

theorem listTodos_empty_tag_lists_all:
  "listTodos engine_ok (tag_filter []) [sample_todo ''a'' ''2026-01-01T00:00:00.000Z'']
     = Inr [sample_todo ''a'' ''2026-01-01T00:00:00.000Z'']
   \<and> \<not> satisfies_as_stated (tag_filter []) (sample_todo ''a'' ''2026-01-01T00:00:00.000Z'')"
  by (simp add: listTodos_def tag_filter_def truthy_def table_toArray_def engine_ok_def
      orderBy_createdAt_def satisfies_as_stated_def sample_todo_def)

text \<open>
  C7, amended: when the storage engine serves the request, \<open>listTodos\<close> returns exactly
  the entities that satisfy the conjunction of the predicates of the filter, each as
  often as it is stored, newest \<open>createdAt\<close> first, where a text field of the filter
  (tag, dueBefore, dueAfter, search) that is the empty text counts as absent, as an
  absent field does, and imposes no constraint.
\<close>

theorem listTodos_filter:
  assumes "\<not> flt 0"
  shows "listTodos flt f rows = Inr (filter (satisfies f) (rev (orderBy_createdAt rows)))
       \<and> mset (filter (satisfies f) (rev (orderBy_createdAt rows))) = filter_mset (satisfies f) (mset rows)
       \<and> sorted_wrt (\<lambda>a b. createdAt b \<le> createdAt a) (filter (satisfies f) (rev (orderBy_createdAt rows)))"
proof -
  have "listTodos flt f rows = Inr (filter (satisfies f) (rev (orderBy_createdAt rows)))"
    using assms by (simp add: listTodos_eq)
  moreover have "mset (filter (satisfies f) (rev (orderBy_createdAt rows))) = filter_mset (satisfies f) (mset rows)"
    by (simp only: mset_filter mset_orderBy)
  ultimately show ?thesis
    using newest_first [of rows] by (simp add: sorted_wrt_filter)
qed

text \<open>
  The witness is the list of the spec: of three_todos, \<open>{ completed: false, tag: "work" }\<close>
  lists the two pending entities tagged work, the newer one first.
\<close>

theorem listTodos_filter_witness:
  "listTodos engine_ok pending_work_filter three_todos
   = Inr [(sample_todo ''c'' ''2026-01-03T00:00:00.000Z'')
            \<lparr>tags := [''urgent'', ''work''], dueDate := Some ''2026-01-04T00:00:00.000Z''\<rparr>,
          (sample_todo ''a'' ''2026-01-01T00:00:00.000Z'')\<lparr>tags := [''work'']\<rparr>]"
proof -
  have "\<not> engine_ok 0"
    by (simp add: engine_ok_def)
  then show ?thesis
    using listTodos_filter [where flt = engine_ok and f = pending_work_filter and rows = three_todos]
    by (simp add: three_todos_def pending_work_filter_def tag_filter_def sample_todo_def
        orderBy_createdAt_def satisfies_def provided_def)
qed

section \<open>Statistics\<close>

lemma length_filter_sort_key: "length (filter P (sort_key f xs)) = length (filter P xs)"
proof -
  have "mset (filter P (sort_key f xs)) = mset (filter P xs)"
    by simp
  then show ?thesis
    by (rule mset_eq_length)
qed

text \<open>
  C9: when the storage engine serves the request, \<open>getStats\<close> returns counts such that
  completed + pending = total and overdue \<le> pending; total is the number of stored
  entities, and overdue is the number of the entities that are incomplete and have a due
  date (a text that is not empty) strictly before the current time.
\<close>

theorem getStats_consistent:
  assumes "\<not> flt 0"
  shows "case getStats flt now rows of
           Inl e \<Rightarrow> False
         | Inr s \<Rightarrow> completed' s + pending s = total s \<and> overdue s \<le> pending s
                    \<and> total s = length rows
                    \<and> overdue s = length (filter (counted_overdue now) rows)"
proof -
  have "length (filter completed xs) + length (filter (\<lambda>t. \<not> completed t) xs) = length xs" for xs :: "todo list"
    using sum_length_filter_compl [of completed xs] by simp
  moreover have "length (filter (\<lambda>t. \<not> completed t \<and> due_lt t now) xs) \<le> length (filter (\<lambda>t. \<not> completed t) xs)"
    for xs :: "todo list"
    by (induction xs) auto
  moreover have "(\<lambda>t. \<not> completed t \<and> due_lt t now) = counted_overdue now"
    by (auto simp: counted_overdue_def due_lt_def)
  ultimately show ?thesis
    using assms
    by (simp add: getStats_def table_toArray_def by_primary_key_def length_filter_sort_key)
qed

theorem getStats_consistent_witness:
  "getStats engine_ok ''2026-01-05T00:00:00.000Z'' three_todos
   = Inr \<lparr>total = 4, completed' = 1, pending = 3, overdue = 1\<rparr>"
proof -
  have "\<not> engine_ok 0"
    by (simp add: engine_ok_def)
  then show ?thesis
    using getStats_consistent [where flt = engine_ok and now = "''2026-01-05T00:00:00.000Z''"
        and rows = three_todos]
    by (simp add: getStats_def table_toArray_def by_primary_key_def three_todos_def
        sample_todo_def due_lt_def engine_ok_def)
qed

section \<open>Installing the service worker\<close>

lemma cache_match_store:
  "cache_match name r (store_entry name' r' resp cs)
   = (if name = name' \<and> r = r' \<and> req_method r = ''GET'' then Some resp else cache_match name r cs)"
  by (simp add: cache_match_def store_entry_def split: option.splits)

lemma cache_match_open: "cache_match name r (caches_open name' cs) = cache_match name r cs"
  by (simp add: cache_match_def caches_open_def split: option.splits)

lemma fetch_all_None:
  "\<not> list_all (fetched_ok net) rs \<Longrightarrow> fetch_all net rs = None"
  by (induction rs) (auto simp: fetched_ok_def split: option.splits)

lemma fetch_all_Some:
  "list_all (fetched_ok net) rs \<Longrightarrow> list_all (\<lambda>r. req_method r = ''GET'') rs \<Longrightarrow>
   \<exists>ps. fetch_all net rs = Some ps \<and> map fst ps = rs \<and> list_all (\<lambda>(r, resp). net r = Some resp) ps"
  by (induction rs) (auto simp: fetched_ok_def split: option.splits)

lemma store_all_match:
  assumes "list_all (\<lambda>(r, resp). net r = Some resp) ps"
  shows "cache_match name r (foldl (\<lambda>c (r, resp). store_entry name' r resp c) cs ps)
         = (if name = name' \<and> r \<in> set (map fst ps) \<and> req_method r = ''GET'' then net r
            else cache_match name r cs)"
  using assms
proof (induction ps arbitrary: cs)
  case Nil
  then show ?case by simp
next
  case (Cons p ps)
  obtain r' resp where p: "p = (r', resp)"
    by (cases p)
  have "net r' = Some resp" and rest: "list_all (\<lambda>(r, resp). net r = Some resp) ps"
    using Cons.prems p by simp_all
  then show ?case
    using Cons.IH [OF rest, where cs = "store_entry name' r' resp cs"] p
    by (auto simp: cache_match_store)
qed

lemma shell_requests_GET: "list_all (\<lambda>r. req_method r = ''GET'') (shell_requests self_origin)"
  by (simp add: shell_requests_def STATIC_CACHE_FILES_def url_request_def)

lemma shell_requests_distinct: "distinct (shell_requests self_origin)"
  by (simp add: shell_requests_def STATIC_CACHE_FILES_def url_request_def)

lemma install_eq:
  "install net full self_origin cs =
     (if list_all (fetched_ok net) (shell_requests self_origin) \<and> \<not> full
      then \<lparr>inst_promise = Fulfilled,
            inst_caches = foldl (\<lambda>c (r, resp). store_entry CACHE_NAME r resp c) (caches_open CACHE_NAME cs)
                            (case fetch_all net (shell_requests self_origin) of None \<Rightarrow> [] | Some ps \<Rightarrow> ps),
            inst_skipWaiting = True\<rparr>
      else \<lparr>inst_promise = Fulfilled, inst_caches = caches_open CACHE_NAME cs, inst_skipWaiting = False\<rparr>)"
proof (cases "list_all (fetched_ok net) (shell_requests self_origin)")
  case True
  then obtain ps where "fetch_all net (shell_requests self_origin) = Some ps"
    using fetch_all_Some [OF True shell_requests_GET] by blast
  then show ?thesis
    using True shell_requests_distinct [of self_origin]
    by (simp add: install_def cache_addAll_def shell_requests_def Let_def)
next
  case False
  then have "fetch_all net (shell_requests self_origin) = None"
    by (rule fetch_all_None)
  then show ?thesis
    using False by (simp add: install_def cache_addAll_def shell_requests_def Let_def)
qed

text \<open>
  C4, as stated, fails: the listener of \<open>install\<close> catches the error of a failed
  precaching, logs it and returns, so the promise it gave to \<open>waitUntil\<close> fulfils. With
  the network down and no cache, nothing is precached, and the worker still becomes
  installed, that is, it reaches the waiting state.
\<close>

theorem install_failure_still_installed:
  "install network_down False app_origin no_caches
     = \<lparr>inst_promise = Fulfilled, inst_caches = [CACHE_NAME \<mapsto> Map.empty], inst_skipWaiting = False\<rparr>
   \<and> state_after_install (inst_promise (install network_down False app_origin no_caches)) = installed"
  by (simp add: install_def cache_addAll_def STATIC_CACHE_FILES_def network_down_def
      caches_open_def no_caches_def state_after_install_def url_request_def Let_def)

text \<open>
  C4, amended: the precache is filled as one all-or-nothing batch. When every shell
  resource is fetched with a response that is ok and that the cache does not refuse, and
  the storage has room, each of them is in the precache under its request, every other
  entry of every cache is the one before, and the worker has asked to skip waiting.
  When the fetch of one of them fails, or its response is not ok or is one the cache
  refuses (a partial response, or one whose \<open>Vary\<close> header has \<open>*\<close>), or the storage has
  no room, no response is stored: the cache storage is the one before, with the precache
  opened, so every entry of every cache, those of an earlier precache too, is the one
  before, and the worker has not asked to skip waiting. In both cases the promise of the
  listener fulfils, so the install counts as succeeded and the worker becomes installed
  (waiting).
\<close>

theorem install_all_or_nothing:
  "state_after_install (inst_promise (install net full self_origin cs)) = installed
   \<and> (if list_all (fetched_ok net) (shell_requests self_origin) \<and> \<not> full
       then inst_skipWaiting (install net full self_origin cs)
            \<and> list_all (\<lambda>r. cache_match CACHE_NAME r (inst_caches (install net full self_origin cs)) = net r)
                 (shell_requests self_origin)
            \<and> cache_match name r (inst_caches (install net full self_origin cs))
                = (if name = CACHE_NAME \<and> r \<in> set (shell_requests self_origin) then net r
                   else cache_match name r cs)
       else \<not> inst_skipWaiting (install net full self_origin cs)
            \<and> inst_caches (install net full self_origin cs) = caches_open CACHE_NAME cs
            \<and> cache_match name r (inst_caches (install net full self_origin cs)) = cache_match name r cs)"
proof (cases "list_all (fetched_ok net) (shell_requests self_origin) \<and> \<not> full")
  case True
  then have fetched: "list_all (fetched_ok net) (shell_requests self_origin)"
    by simp
  obtain ps where ps: "fetch_all net (shell_requests self_origin) = Some ps"
    "map fst ps = shell_requests self_origin" "list_all (\<lambda>(r, resp). net r = Some resp) ps"
    using fetch_all_Some [OF fetched shell_requests_GET] by blast
  have get: "req_method q = ''GET''" if "q \<in> set (shell_requests self_origin)" for q
    using that shell_requests_GET [of self_origin] by (simp add: list_all_iff)
  have entry: "cache_match n q
          (foldl (\<lambda>c (r, resp). store_entry CACHE_NAME r resp c) (caches_open CACHE_NAME cs) ps)
        = (if n = CACHE_NAME \<and> q \<in> set (shell_requests self_origin) then net q
           else cache_match n q cs)" for n q
    using store_all_match [OF ps(3), where name = n and r = q and name' = CACHE_NAME
        and cs = "caches_open CACHE_NAME cs"] ps(2) get [of q]
    by (simp add: cache_match_open)
  show ?thesis
    using True ps(1) by (simp add: install_eq state_after_install_def list_all_iff entry)
next
  case False
  then show ?thesis
    by (auto simp: install_eq state_after_install_def cache_match_open)
qed

theorem install_all_or_nothing_witness:
  "state_after_install (inst_promise (install network_up False app_origin no_caches)) = installed
   \<and> inst_skipWaiting (install network_up False app_origin no_caches)
   \<and> cache_match CACHE_NAME (url_request app_origin ''/offline'')
        (inst_caches (install network_up False app_origin no_caches))
      = network_up (url_request app_origin ''/offline'')
   \<and> \<not> inst_skipWaiting (install network_down False app_origin old_precache)
   \<and> inst_caches (install network_down False app_origin old_precache) = old_precache
   \<and> cache_match CACHE_NAME (url_request app_origin ''/offline'')
        (inst_caches (install network_down False app_origin old_precache)) = Some stale_response
   \<and> \<not> inst_skipWaiting (install network_partial False app_origin no_caches)
   \<and> cache_match CACHE_NAME (url_request app_origin ''/offline'')
        (inst_caches (install network_partial False app_origin no_caches)) = None
   \<and> \<not> inst_skipWaiting (install network_up True app_origin no_caches)
   \<and> cache_match CACHE_NAME (url_request app_origin ''/offline'')
        (inst_caches (install network_up True app_origin no_caches)) = None"
proof -
  have opened: "caches_open CACHE_NAME old_precache = old_precache"
    by (simp add: caches_open_def old_precache_def store_entry_def no_caches_def)
  have old: "cache_match CACHE_NAME (url_request app_origin ''/offline'') old_precache
             = Some stale_response"
    by (simp add: old_precache_def cache_match_store OFFLINE_URL_def url_request_def)
  have none: "cache_match CACHE_NAME (url_request app_origin ''/offline'') no_caches = None"
    by (simp add: cache_match_def no_caches_def)
  have shell: "url_request app_origin ''/offline'' \<in> set (shell_requests app_origin)"
    by (simp add: shell_requests_def STATIC_CACHE_FILES_def)
  have up: "list_all (fetched_ok network_up) (shell_requests app_origin)"
    by (simp add: shell_requests_def STATIC_CACHE_FILES_def fetched_ok_def network_up_def ok_def
        cache_refuses_def)
  have down: "\<not> list_all (fetched_ok network_down) (shell_requests app_origin)"
    by (simp add: shell_requests_def STATIC_CACHE_FILES_def fetched_ok_def network_down_def)
  have partial: "\<not> list_all (fetched_ok network_partial) (shell_requests app_origin)"
    by (simp add: shell_requests_def STATIC_CACHE_FILES_def fetched_ok_def network_partial_def
        cache_refuses_def)
  show ?thesis
    using install_all_or_nothing [where net = network_up and full = False and self_origin = app_origin
        and cs = no_caches and name = CACHE_NAME and r = "url_request app_origin ''/offline''"]
      install_all_or_nothing [where net = network_down and full = False and self_origin = app_origin
        and cs = old_precache and name = CACHE_NAME and r = "url_request app_origin ''/offline''"]
      install_all_or_nothing [where net = network_partial and full = False and self_origin = app_origin
        and cs = no_caches and name = CACHE_NAME and r = "url_request app_origin ''/offline''"]
      install_all_or_nothing [where net = network_up and full = True and self_origin = app_origin
        and cs = no_caches and name = CACHE_NAME and r = "url_request app_origin ''/offline''"]
    by (simp add: opened old none shell up down partial cache_match_open)
qed

section \<open>Requests of the API\<close>





end
